theory Spec2Isabelle
  imports Main
begin

section \<open>C strings and the library calls of dynexec.c\<close>

text \<open>
  A C string is a \<open>string\<close> (the bytes before the terminating NUL). A \<open>char *\<close> that may
  be \<open>NULL\<close> is a \<open>string option\<close>, with \<open>None\<close> for \<open>NULL\<close>.
\<close>

type_synonym cptr = "string option"

text \<open>
  \<open>strrchr(s, c)\<close>: the index of the last occurrence of \<open>c\<close> in \<open>s\<close>, \<open>None\<close> for the
  \<open>NULL\<close> it returns when there is none.
\<close>

fun strrchr :: "string \<Rightarrow> char \<Rightarrow> nat option" where
  "strrchr [] c = None"
| "strrchr (x # xs) c =
     (case strrchr xs c of
        Some i \<Rightarrow> Some (Suc i)
      | None \<Rightarrow> if x = c then Some 0 else None)"

text \<open>
  \<open>snprintf(buf, n, fmt, ...)\<close> stores at most \<open>n - 1\<close> bytes of the formatted text and a
  NUL; \<open>s\<close> is the formatted text.
\<close>

definition snprintf :: "nat \<Rightarrow> string \<Rightarrow> string" where
  "snprintf n s = take (n - 1) s"

subsection \<open>POSIX basic regular expressions, as far as the program uses them\<close>

datatype atom = Lit char | AnyChar | NoneOf "char list"

datatype piece = Once atom | Star atom

type_synonym regex_t = "bool \<times> piece list"

fun atom_ok :: "atom \<Rightarrow> char \<Rightarrow> bool" where
  "atom_ok (Lit d) c = (c = d)"
| "atom_ok AnyChar c = True"
| "atom_ok (NoneOf ds) c = (c \<notin> set ds)"

text \<open>
  \<open>regcomp(&regex, pattern, 0)\<close> for the patterns made of ordinary characters, \<open>.\<close>,
  \<open>\.\<close>, a \<open>*\<close> after one of these, and a leading \<open>^\<close>. Any other syntax is
  refused here (\<open>None\<close>), which the program reports as a failed compilation.
\<close>

definition bre_special :: "char \<Rightarrow> bool" where
  "bre_special c = (c \<in> set ''*[$^'')"

definition bre_atom :: "char \<Rightarrow> atom" where
  "bre_atom c = (if c = CHR ''.'' then AnyChar else Lit c)"

fun bre_pieces :: "string \<Rightarrow> piece list option" where
  "bre_pieces [] = Some []"
| "bre_pieces (c # cs) =
     (if c = CHR 0x5C then
        (case cs of
           [] \<Rightarrow> None
         | d # r \<Rightarrow>
             if d \<noteq> CHR ''.'' then None
             else (case r of
                     [] \<Rightarrow> Some [Once (Lit d)]
                   | x # r' \<Rightarrow>
                       if x = CHR ''*'' then map_option ((#) (Star (Lit d))) (bre_pieces r')
                       else map_option ((#) (Once (Lit d))) (bre_pieces r)))
      else if bre_special c then None
      else (case cs of
              [] \<Rightarrow> Some [Once (bre_atom c)]
            | x # r \<Rightarrow>
                if x = CHR ''*'' then map_option ((#) (Star (bre_atom c))) (bre_pieces r)
                else map_option ((#) (Once (bre_atom c))) (bre_pieces cs)))"

definition regcomp :: "string \<Rightarrow> regex_t option" where
  "regcomp pattern =
     (case pattern of
        [] \<Rightarrow> Some (False, [])
      | c # cs \<Rightarrow>
          if c = CHR ''^'' then map_option (Pair True) (bre_pieces cs)
          else map_option (Pair False) (bre_pieces pattern))"

text \<open>Does the piece list match a prefix of the string?\<close>

fun match_here :: "piece list \<Rightarrow> string \<Rightarrow> bool" where
  "match_here [] s = True"
| "match_here (Once a # ps) [] = False"
| "match_here (Once a # ps) (c # s) = (atom_ok a c \<and> match_here ps s)"
| "match_here (Star a # ps) [] = match_here ps []"
| "match_here (Star a # ps) (c # s) =
     (match_here ps (c # s) \<or> (atom_ok a c \<and> match_here (Star a # ps) s))"

fun match_anywhere :: "piece list \<Rightarrow> string \<Rightarrow> bool" where
  "match_anywhere ps [] = match_here ps []"
| "match_anywhere ps (c # s) = (match_here ps (c # s) \<or> match_anywhere ps s)"

text \<open>
  \<open>regexec(&regex, s, 0, NULL, 0) == 0\<close>: some substring of \<open>s\<close> matches, starting at
  the beginning of \<open>s\<close> when the expression is anchored.
\<close>

definition regexec :: "regex_t \<Rightarrow> string \<Rightarrow> bool" where
  "regexec re s = (if fst re then match_here (snd re) s else match_anywhere (snd re) s)"

text \<open>The pattern of line 22, \<^verbatim>\<open>"^ld-.*-.*\\.so\\..*"\<close> in C source text.\<close>

definition linker_pattern :: string where
  "linker_pattern = ''^ld-.*-.*'' @ [CHR 0x5C] @ ''.so'' @ [CHR 0x5C] @ ''..*''"

text \<open>
  The name test of the Interpreter Locator: \<open>regexec\<close> at line 39 with the expression
  compiled at line 22.
\<close>

definition accepts_name :: "string \<Rightarrow> bool" where
  "accepts_name d_name =
     (case regcomp linker_pattern of None \<Rightarrow> False | Some regex \<Rightarrow> regexec regex d_name)"

text \<open>
  The name test as the specification words it: \<open>ld-\<close>, one or more characters other than
  \<open>.\<close> and \<open>/\<close>, a \<open>-\<close>, another such run, \<open>.so.\<close>, and a trailing run of characters
  (taken here in its widest sense: any characters, possibly none).
\<close>

definition spec_name_pieces :: "piece list" where
  "spec_name_pieces =
     map (\<lambda>d. Once (Lit d)) ''ld-''
     @ [Once (NoneOf ''./''), Star (NoneOf ''./''), Once (Lit CHR ''-''),
        Once (NoneOf ''./''), Star (NoneOf ''./'')]
     @ map (\<lambda>d. Once (Lit d)) ''.so.''
     @ [Star AnyChar]"

definition spec_name_test :: "string \<Rightarrow> bool" where
  "spec_name_test d_name = match_here spec_name_pieces d_name"

subsection \<open>Path functions\<close>

text \<open>
  \<open>dirname\<close> of \<open>libgen.h\<close>, as POSIX describes it: trailing slashes are dropped, then the
  last component, then the slashes before it; \<open>.\<close> when no directory part is left and
  \<open>/\<close> when only slashes are. (The program applies it to the output of \<open>realpath\<close>.)
\<close>

definition strip_slashes :: "string \<Rightarrow> string" where
  "strip_slashes s = rev (dropWhile (\<lambda>c. c = CHR ''/'') (rev s))"

definition strip_component :: "string \<Rightarrow> string" where
  "strip_component s = rev (dropWhile (\<lambda>c. c \<noteq> CHR ''/'') (rev s))"

definition dirname :: "string \<Rightarrow> string" where
  "dirname path =
     (if path = [] then ''.''
      else let a = strip_slashes path in
        if a = [] then ''/''
        else let b = strip_component a in
          if b = [] then ''.''
          else let c = strip_slashes b in
            if c = [] then ''/'' else c)"

text \<open>Lines 63-66.\<close>

definition custom_basename :: "string \<Rightarrow> string" where
  "custom_basename path =
     (case strrchr path CHR ''/'' of Some i \<Rightarrow> drop (Suc i) path | None \<Rightarrow> path)"

subsection \<open>The operating system\<close>

text \<open>
  The file type in \<open>st_mode\<close> that \<open>stat\<close> reports (it follows symbolic links, so a link
  is never reported as such).
\<close>

datatype file_type = Regular | Directory | Other

text \<open>
  What the system calls answer, as the program sees them:
  \<^item> \<open>realpath p\<close>: the canonical path, or \<open>Inl\<close> the \<open>strerror\<close> text of the failure;
  \<^item> \<open>stat p\<close>: the file type, or \<open>None\<close> when the call fails;
  \<^item> \<open>opendir p\<close>: the names that successive \<open>readdir\<close> calls return, in that order,
  or \<open>Inl\<close> the error text when the directory cannot be opened;
  \<^item> \<open>execve prog argv envp\<close>: \<open>None\<close> when the process image is replaced, else the
  error text;
  \<^item> \<open>environ\<close>: the inherited environment.
\<close>

record os =
  realpath :: "string \<Rightarrow> string + string"
  stat :: "string \<Rightarrow> file_type option"
  opendir :: "string \<Rightarrow> string + string list"
  execve :: "string \<Rightarrow> cptr list \<Rightarrow> string list \<Rightarrow> string option"
  environ :: "string list"

text \<open>
  How a run ends without replacing the process image: \<open>exit(status)\<close> after the text
  written to standard error, or a read through the null pointer.
\<close>

datatype exit = Exit (stderr: string) (status: nat) | Null_Dereference

definition EXIT_FAILURE :: nat where
  "EXIT_FAILURE = 1"

section \<open>The program\<close>

text \<open>
  Each function of \<open>dynexec.c\<close> takes the operating system as its first argument. A call
  of \<open>exit\<close> is the result \<open>Inl\<close>. Allocation (\<open>malloc\<close>, \<open>strdup\<close>, the buffer of
  \<open>realpath\<close>) is taken to succeed.
\<close>

definition DYNEXE_NAME :: string where
  "DYNEXE_NAME = ''dynexe''"

text \<open>
  Lines 14-52. The loop over \<open>readdir\<close> is \<open>scan_entries\<close>; \<open>path\<close> is a 1024-byte buffer and
  \<open>linker_name\<close> a 256-byte one, both written by \<open>snprintf\<close>.
\<close>

fun scan_entries :: "os \<Rightarrow> regex_t \<Rightarrow> string \<Rightarrow> string list \<Rightarrow> cptr" where
  "scan_entries os regex shared_lib [] = None"
| "scan_entries os regex shared_lib (d_name # rest) =
     (let path = snprintf 1024 (shared_lib @ ''/'' @ d_name) in
      if stat os path = Some Regular \<and> regexec regex d_name
      then Some (snprintf 256 d_name)
      else scan_entries os regex shared_lib rest)"

definition match_linker_name :: "os \<Rightarrow> string \<Rightarrow> exit + cptr" where
  "match_linker_name os shared_lib =
     (case regcomp linker_pattern of
        None \<Rightarrow> Inl (Exit ''Could not compile regex\<newline>'' EXIT_FAILURE)
      | Some regex \<Rightarrow>
          (case opendir os shared_lib of
             Inl e \<Rightarrow> Inl (Exit (''opendir: '' @ e @ ''\<newline>'') EXIT_FAILURE)
           | Inr entries \<Rightarrow> Inr (scan_entries os regex shared_lib entries)))"

text \<open>Lines 54-61.\<close>

definition realpath_alloc :: "os \<Rightarrow> string \<Rightarrow> exit + string" where
  "realpath_alloc os path =
     (case realpath os path of
        Inl e \<Rightarrow> Inl (Exit (''realpath: '' @ e @ ''\<newline>'') EXIT_FAILURE)
      | Inr resolved_path \<Rightarrow> Inr resolved_path)"

text \<open>Lines 68-74.\<close>

definition is_file :: "os \<Rightarrow> string \<Rightarrow> bool" where
  "is_file os path = (case stat os path of None \<Rightarrow> False | Some t \<Rightarrow> t = Regular)"

text \<open>
  \<open>main\<close>, lines 77-88: the directory the rest of \<open>main\<close> works from (\<open>dynexe_dir\<close> at
  line 90). \<open>lower_dir\<close> is a 512-byte buffer.
\<close>

definition dynexe_dir :: "os \<Rightarrow> exit + string" where
  "dynexe_dir os =
     (case realpath_alloc os ''/proc/self/exe'' of
        Inl x \<Rightarrow> Inl x
      | Inr dynexe \<Rightarrow>
          let dir = dirname dynexe;
              lower_dir = snprintf 512 (dir @ ''/../'')
          in if custom_basename dir = ''bin'' \<and> is_file os lower_dir
             then realpath_alloc os lower_dir
             else Inr dir)"

text \<open>Lines 90-94: both buffers are allocated with the size that is written.\<close>

definition shared_bin :: "string \<Rightarrow> string" where
  "shared_bin dir = snprintf (length dir + 12) (dir @ ''/shared/bin'')"

definition shared_lib :: "string \<Rightarrow> string" where
  "shared_lib dir = snprintf (length dir + 12) (dir @ ''/shared/lib'')"

text \<open>
  Lines 96-102: the name of the binary to run and the argument vector after the
  optional \<open>argv++\<close> (\<open>argc\<close> is its length throughout). With an empty argument vector
  \<open>argv[0]\<close> is \<open>NULL\<close> and \<open>strrchr\<close> reads through it.
\<close>

definition dispatch :: "string list \<Rightarrow> (string \<times> string list) option" where
  "dispatch argv =
     (case argv of
        [] \<Rightarrow> None
      | a0 # _ \<Rightarrow>
          let bin_name = custom_basename a0; argc = length argv
          in if bin_name = DYNEXE_NAME \<and> argc > 1
             then Some (argv ! 1, tl argv)
             else Some (bin_name, argv))"

text \<open>Lines 104-105 and 113-114: \<open>"%s/%s"\<close> into a buffer of the size written.\<close>

definition join_path :: "string \<Rightarrow> string \<Rightarrow> string" where
  "join_path dir name = snprintf (length dir + length name + 2) (dir @ ''/'' @ name)"

text \<open>
  Lines 116-125. The array has \<open>argc + 4\<close> slots; \<open>store_exec_args\<close> performs the stores on
  it and \<open>fill_args\<close> is the loop of lines 122-124.
\<close>

function fill_args :: "nat \<Rightarrow> nat \<Rightarrow> string list \<Rightarrow> cptr list \<Rightarrow> cptr list" where
  "fill_args i argc argv exec_args =
     (if i < argc
      then fill_args (Suc i) argc argv (exec_args[3 + i := Some (argv ! i)])
      else exec_args)"
  by pat_completeness auto
termination
  by (relation "measure (\<lambda>(i, argc, argv, exec_args). argc - i)") auto

declare fill_args.simps [simp del]

definition store_exec_args ::
  "string \<Rightarrow> string \<Rightarrow> string \<Rightarrow> string list \<Rightarrow> cptr list \<Rightarrow> cptr list" where
  "store_exec_args linker slib bin argv exec_args =
     (let argc = length argv;
          a1 = exec_args[0 := Some linker];
          a2 = a1[1 := Some ''--library-path''];
          a3 = a2[2 := Some slib];
          a4 = a3[3 := Some bin];
          a5 = fill_args 1 argc argv a4
      in a5[argc + 3 := None])"

text \<open>
  The array is not initialised when it is declared; every slot is stored to before
  \<open>execve\<close> reads it (lemma \<open>store_exec_args_eq\<close> below), so its first contents do not
  matter and are taken to be null pointers.
\<close>

definition build_exec_args :: "string \<Rightarrow> string \<Rightarrow> string \<Rightarrow> string list \<Rightarrow> cptr list" where
  "build_exec_args linker slib bin argv =
     store_exec_args linker slib bin argv (replicate (length argv + 4) None)"

text \<open>
  \<open>main\<close> up to line 128: how it ends before \<open>execve\<close>, or the three arguments it calls
  \<open>execve\<close> with.
\<close>

definition exec_call :: "os \<Rightarrow> string list \<Rightarrow> exit + (string \<times> cptr list \<times> string list)" where
  "exec_call os argv =
     (case dynexe_dir os of
        Inl x \<Rightarrow> Inl x
      | Inr dir \<Rightarrow>
          let sbin = shared_bin dir; slib = shared_lib dir
          in (case dispatch argv of
                None \<Rightarrow> Inl Null_Dereference
              | Some (bin_name, argv') \<Rightarrow>
                  let bin = join_path sbin bin_name
                  in (case match_linker_name os slib of
                        Inl x \<Rightarrow> Inl x
                      | Inr None \<Rightarrow>
                          Inl (Exit (''No valid linker found in '' @ slib @ ''\<newline>'') EXIT_FAILURE)
                      | Inr (Some linker_name) \<Rightarrow>
                          let linker = join_path slib linker_name
                          in Inr (linker, build_exec_args linker slib bin argv', environ os))))"

text \<open>Lines 76-142: the whole run.\<close>

datatype outcome = Replaced string "cptr list" "string list" | Terminated exit

definition main :: "os \<Rightarrow> string list \<Rightarrow> outcome" where
  "main os argv =
     (case exec_call os argv of
        Inl x \<Rightarrow> Terminated x
      | Inr (linker, exec_args, envp) \<Rightarrow>
          (case execve os linker exec_args envp of
             None \<Rightarrow> Replaced linker exec_args envp
           | Some err \<Rightarrow>
               Terminated (Exit (''Failed to execute '' @ linker @ '': '' @ err @ ''\<newline>'')
                                EXIT_FAILURE)))"

section \<open>Concrete systems\<close>

text \<open>
  Three file systems on which the program is run below. In \<open>scenario_os\<close> the launcher is
  \<open>/opt/app/dynexe\<close> and \<open>/opt/app/shared/lib\<close> holds one interpreter; in \<open>bin_layout_os\<close> the
  launcher is \<open>/opt/app/bin/dynexe\<close>; in \<open>deep_os\<close> it lies in a directory four levels
  deep (three names of 252 bytes and one of 253) whose path is 1013 bytes long, so that
  the library directory's path is 1024 bytes long. There \<open>linker_file\<close> is what \<open>stat\<close>
  answers for the entry \<open>ld-linux-x86-64.so.2\<close> of the library directory and \<open>li_file\<close>
  what it answers for the sibling \<open>shared/li\<close> of that directory; \<open>execve\<close> replaces the
  process image only when it is given that entry and the entry is a regular file, and
  fails with \<open>ENOENT\<close> otherwise.
\<close>

definition ENOENT :: string where
  "ENOENT = ''No such file or directory''"

definition scenario_os :: os where
  "scenario_os = \<lparr>
     realpath = (\<lambda>p. if p = ''/proc/self/exe'' then Inr ''/opt/app/dynexe'' else Inl ENOENT),
     stat = (\<lambda>p. if p = ''/opt/app/shared/lib/ld-linux-x86-64.so.2'' then Some Regular
                  else if p = ''/opt/app/shared/lib/libc.so.6'' then Some Regular
                  else if p = ''/opt/app/shared/lib/.'' then Some Directory
                  else if p = ''/opt/app/shared/lib/..'' then Some Directory
                  else None),
     opendir = (\<lambda>p. if p = ''/opt/app/shared/lib''
                     then Inr [''.'', ''..'', ''libc.so.6'', ''ld-linux-x86-64.so.2'']
                     else Inl ENOENT),
     execve = (\<lambda>prog argv envp. None),
     environ = [''PATH=/usr/bin'', ''HOME=/root'']
   \<rparr>"

definition bin_layout_os :: os where
  "bin_layout_os = \<lparr>
     realpath = (\<lambda>p. if p = ''/proc/self/exe'' then Inr ''/opt/app/bin/dynexe''
                      else if p = ''/opt/app/bin/../'' then Inr ''/opt/app''
                      else Inl ENOENT),
     stat = (\<lambda>p. if p = ''/opt/app/bin/../'' then Some Directory
                  else if p = ''/opt/app/bin/dynexe'' then Some Regular
                  else None),
     opendir = (\<lambda>p. Inl ENOENT),
     execve = (\<lambda>prog argv envp. None),
     environ = []
   \<rparr>"

definition deep_segment :: string where
  "deep_segment = CHR ''/'' # replicate 252 CHR ''a''"

definition deep_dir :: string where
  "deep_dir = (deep_segment @ deep_segment @ deep_segment) @ ''/'' @ replicate 253 CHR ''a''"

definition deep_os :: "file_type option \<Rightarrow> file_type option \<Rightarrow> os" where
  "deep_os linker_file li_file = \<lparr>
     realpath = (\<lambda>p. if p = ''/proc/self/exe'' then Inr (deep_dir @ ''/dynexe'') else Inl ENOENT),
     stat = (\<lambda>p. if p = deep_dir @ ''/shared/lib/ld-linux-x86-64.so.2'' then linker_file
                  else if p = deep_dir @ ''/shared/li'' then li_file
                  else if p = deep_dir @ ''/shared/lib/.'' then Some Directory
                  else if p = deep_dir @ ''/shared/lib/..'' then Some Directory
                  else None),
     opendir = (\<lambda>p. if p = deep_dir @ ''/shared/lib''
                     then Inr [''.'', ''..'', ''ld-linux-x86-64.so.2'']
                     else Inl ENOENT),
     execve = (\<lambda>prog argv envp.
                 if linker_file = Some Regular \<and>
                    prog = deep_dir @ ''/shared/lib/ld-linux-x86-64.so.2''
                 then None else Some ENOENT),
     environ = []
   \<rparr>"

section \<open>Facts about the library functions\<close>

lemma regcomp_linker_pattern:
  "regcomp linker_pattern =
     Some (True, [Once (Lit CHR ''l''), Once (Lit CHR ''d''), Once (Lit CHR ''-''),
                  Star AnyChar, Once (Lit CHR ''-''), Star AnyChar,
                  Once (Lit CHR ''.''), Once (Lit CHR ''s''), Once (Lit CHR ''o''),
                  Once (Lit CHR ''.''), Star AnyChar])"
  by (simp add: regcomp_def linker_pattern_def bre_special_def bre_atom_def)

lemma match_here_star:
  "match_here (Star a # ps) s \<longleftrightarrow>
     (\<exists>x y. s = x @ y \<and> list_all (atom_ok a) x \<and> match_here ps y)"
proof (induction s)
  case Nil
  then show ?case by simp
next
  case (Cons c s)
  show ?case
  proof
    assume "match_here (Star a # ps) (c # s)"
    then consider "match_here ps (c # s)" | "atom_ok a c" "match_here (Star a # ps) s"
      by auto
    then show "\<exists>x y. c # s = x @ y \<and> list_all (atom_ok a) x \<and> match_here ps y"
    proof cases
      case 1
      then have "c # s = [] @ (c # s) \<and> list_all (atom_ok a) [] \<and> match_here ps (c # s)"
        by simp
      then show ?thesis by blast
    next
      case 2
      then obtain x y where "s = x @ y" "list_all (atom_ok a) x" "match_here ps y"
        using Cons.IH by blast
      then have "c # s = (c # x) @ y \<and> list_all (atom_ok a) (c # x) \<and> match_here ps y"
        using 2 by simp
      then show ?thesis by blast
    qed
  next
    assume "\<exists>x y. c # s = x @ y \<and> list_all (atom_ok a) x \<and> match_here ps y"
    then obtain x y where xy: "c # s = x @ y" "list_all (atom_ok a) x" "match_here ps y"
      by blast
    show "match_here (Star a # ps) (c # s)"
    proof (cases x)
      case Nil
      then have "y = c # s" using xy by simp
      then show ?thesis using xy(3) by simp
    next
      case xc: (Cons c' x')
      then have "s = x' @ y" "atom_ok a c" "list_all (atom_ok a) x'" using xy by auto
      then show ?thesis using Cons.IH xy(3) by auto
    qed
  qed
qed

lemma match_here_once:
  "match_here (Once a # ps) s \<longleftrightarrow> (\<exists>c y. s = c # y \<and> atom_ok a c \<and> match_here ps y)"
  by (cases s) auto

lemma match_here_lits:
  "match_here (map (\<lambda>d. Once (Lit d)) ds @ ps) s \<longleftrightarrow> (\<exists>y. s = ds @ y \<and> match_here ps y)"
  by (induction ds arbitrary: s) (auto simp: match_here_once)

lemma list_all_any [simp]: "list_all (atom_ok AnyChar) x"
  by (induction x) auto

text \<open>The specification's wording of the name test, spelled out.\<close>

lemma spec_name_test_iff:
  "spec_name_test d_name \<longleftrightarrow>
     (\<exists>t1 t2 t3. d_name = ''ld-'' @ t1 @ ''-'' @ t2 @ ''.so.'' @ t3 \<and>
        t1 \<noteq> [] \<and> list_all (atom_ok (NoneOf ''./'')) t1 \<and>
        t2 \<noteq> [] \<and> list_all (atom_ok (NoneOf ''./'')) t2)"
proof
  assume "spec_name_test d_name"
  then obtain c1 x1 c2 x2 t3 where
    d: "d_name = ''ld-'' @ (c1 # x1) @ ''-'' @ (c2 # x2) @ ''.so.'' @ t3"
    and ok: "atom_ok (NoneOf ''./'') c1" "list_all (atom_ok (NoneOf ''./'')) x1"
            "atom_ok (NoneOf ''./'') c2" "list_all (atom_ok (NoneOf ''./'')) x2"
    by (auto simp: spec_name_test_def spec_name_pieces_def match_here_once match_here_star
             simp del: atom_ok.simps(3))
  have "c1 # x1 \<noteq> [] \<and> list_all (atom_ok (NoneOf ''./'')) (c1 # x1) \<and>
        c2 # x2 \<noteq> [] \<and> list_all (atom_ok (NoneOf ''./'')) (c2 # x2)"
    using ok by simp
  with d show "\<exists>t1 t2 t3. d_name = ''ld-'' @ t1 @ ''-'' @ t2 @ ''.so.'' @ t3 \<and>
        t1 \<noteq> [] \<and> list_all (atom_ok (NoneOf ''./'')) t1 \<and>
        t2 \<noteq> [] \<and> list_all (atom_ok (NoneOf ''./'')) t2"
    by blast
next
  assume "\<exists>t1 t2 t3. d_name = ''ld-'' @ t1 @ ''-'' @ t2 @ ''.so.'' @ t3 \<and>
        t1 \<noteq> [] \<and> list_all (atom_ok (NoneOf ''./'')) t1 \<and>
        t2 \<noteq> [] \<and> list_all (atom_ok (NoneOf ''./'')) t2"
  then obtain t1 t2 t3 where t: "d_name = ''ld-'' @ t1 @ ''-'' @ t2 @ ''.so.'' @ t3"
      "t1 \<noteq> []" "list_all (atom_ok (NoneOf ''./'')) t1"
      "t2 \<noteq> []" "list_all (atom_ok (NoneOf ''./'')) t2"
    by blast
  obtain c1 x1 where t1: "t1 = c1 # x1"
    using t(2) by (cases t1) auto
  obtain c2 x2 where t2: "t2 = c2 # x2"
    using t(4) by (cases t2) auto
  have d: "d_name = ''ld-'' @ (c1 # x1) @ ''-'' @ (c2 # x2) @ ''.so.'' @ t3"
    using t(1) by (simp add: t1 t2)
  have ok: "atom_ok (NoneOf ''./'') c1" "list_all (atom_ok (NoneOf ''./'')) x1"
           "atom_ok (NoneOf ''./'') c2" "list_all (atom_ok (NoneOf ''./'')) x2"
    using t(3,5) by (simp_all add: t1 t2 del: atom_ok.simps(3))
  let ?n = "NoneOf ''./''"
  have 1: "match_here [Star AnyChar] t3"
    by (simp add: match_here_star) (metis append_Nil)
  have 2: "match_here (map (\<lambda>d. Once (Lit d)) ''.so.'' @ [Star AnyChar]) (''.so.'' @ t3)"
    unfolding match_here_lits using 1 by simp
  have 3: "match_here (Star ?n # map (\<lambda>d. Once (Lit d)) ''.so.'' @ [Star AnyChar])
             (x2 @ ''.so.'' @ t3)"
    unfolding match_here_star [of _ _ "x2 @ ''.so.'' @ t3"] using 2 ok(4) by blast
  have 4: "match_here (Once (Lit CHR ''-'') # Once ?n # Star ?n #
                       map (\<lambda>d. Once (Lit d)) ''.so.'' @ [Star AnyChar])
             (''-'' @ (c2 # x2) @ ''.so.'' @ t3)"
    using 3 ok(3) by (simp del: atom_ok.simps(3))
  have 5: "match_here (Star ?n # Once (Lit CHR ''-'') # Once ?n # Star ?n #
                       map (\<lambda>d. Once (Lit d)) ''.so.'' @ [Star AnyChar])
             (x1 @ ''-'' @ (c2 # x2) @ ''.so.'' @ t3)"
    unfolding match_here_star [of _ _ "x1 @ ''-'' @ (c2 # x2) @ ''.so.'' @ t3"]
    using 4 ok(2) by blast
  show "spec_name_test d_name"
    using 5 ok(1) by (simp add: d spec_name_test_def spec_name_pieces_def del: atom_ok.simps(3))
qed

lemma snprintf_fits: "length s < n \<Longrightarrow> snprintf n s = s"
  by (simp add: snprintf_def)

lemma shared_bin_eq: "shared_bin dir = dir @ ''/shared/bin''"
  by (simp add: shared_bin_def snprintf_fits)

lemma shared_lib_eq: "shared_lib dir = dir @ ''/shared/lib''"
  by (simp add: shared_lib_def snprintf_fits)

lemma join_path_eq: "join_path dir name = dir @ ''/'' @ name"
  by (simp add: join_path_def snprintf_fits)

section \<open>Facts about the program\<close>

lemma fill_args_length: "length (fill_args i argc argv arr) = length arr"
proof (induction i argc argv arr rule: fill_args.induct)
  case (1 i argc argv arr)
  show ?case
    by (subst fill_args.simps) (simp add: 1)
qed

lemma fill_args_nth:
  "k < length arr \<Longrightarrow>
   fill_args i argc argv arr ! k =
     (if 3 + i \<le> k \<and> k < 3 + argc then Some (argv ! (k - 3)) else arr ! k)"
proof (induction i argc argv arr rule: fill_args.induct)
  case (1 i argc argv arr)
  show ?case
  proof (cases "i < argc")
    case True
    have "fill_args i argc argv arr ! k = fill_args (Suc i) argc argv (arr[3 + i := Some (argv ! i)]) ! k"
      using True by (subst fill_args.simps) simp
    also have "\<dots> = (if 3 + Suc i \<le> k \<and> k < 3 + argc then Some (argv ! (k - 3))
                      else arr[3 + i := Some (argv ! i)] ! k)"
      using "1.IH" [OF True] "1.prems" by simp
    also have "\<dots> = (if 3 + i \<le> k \<and> k < 3 + argc then Some (argv ! (k - 3)) else arr ! k)"
    proof -
      have "k - 3 = i" if "3 + i \<le> k" "\<not> 4 + i \<le> k"
        using that by linarith
      then show ?thesis
        using True "1.prems" by (auto simp: nth_list_update)
    qed
    finally show ?thesis .
  next
    case False
    then have eq: "fill_args i argc argv arr = arr"
      by (subst fill_args.simps) simp
    from False have "\<not> (3 + i \<le> k \<and> k < 3 + argc)" by linarith
    then show ?thesis unfolding eq by (simp only: if_False)
  qed
qed

lemma store_exec_args_eq:
  assumes "length arr = length argv + 4" and "argv \<noteq> []"
  shows "store_exec_args linker slib bin argv arr =
           map Some ([linker, ''--library-path'', slib, bin] @ tl argv) @ [None]"
proof (rule nth_equalityI)
  show "length (store_exec_args linker slib bin argv arr) =
        length (map Some ([linker, ''--library-path'', slib, bin] @ tl argv) @ [None])"
    using assms by (cases argv) (simp_all add: store_exec_args_def Let_def fill_args_length)
next
  fix k assume "k < length (store_exec_args linker slib bin argv arr)"
  then have k: "k < length argv + 4"
    using assms by (simp add: store_exec_args_def Let_def fill_args_length)
  consider "k = 0" | "k = 1" | "k = 2" | "k = 3" | "4 \<le> k" "k < length argv + 3" | "k = length argv + 3"
    using k by linarith
  then show "store_exec_args linker slib bin argv arr ! k =
             (map Some ([linker, ''--library-path'', slib, bin] @ tl argv) @ [None]) ! k"
  proof cases
    case 5
    let ?rest = "map Some (tl argv) @ [None :: cptr]"
    have lhs: "store_exec_args linker slib bin argv arr ! k = Some (argv ! (k - 3))"
      using 5 assms
      by (simp add: store_exec_args_def Let_def fill_args_length fill_args_nth nth_list_update)
    have "k - 4 < length (tl argv)"
      using 5 by simp
    then have "?rest ! (k - 4) = Some (tl argv ! (k - 4))"
      by (simp add: nth_append)
    moreover have "tl argv ! (k - 4) = argv ! (k - 3)"
      using 5 assms by (cases argv) (simp_all add: Suc_diff_le numeral_eq_Suc)
    moreover have "([Some linker, Some ''--library-path'', Some slib, Some bin] @ ?rest) ! k
                     = ?rest ! (k - 4)"
      using 5 by (simp add: nth_append eval_nat_numeral)
    ultimately show ?thesis
      using lhs by simp
  qed (use assms in \<open>simp_all add: store_exec_args_def Let_def fill_args_length fill_args_nth nth_list_update nth_append\<close>)
qed

lemma build_exec_args_eq:
  "argv \<noteq> [] \<Longrightarrow>
   build_exec_args linker slib bin argv =
     map Some ([linker, ''--library-path'', slib, bin] @ tl argv) @ [None]"
  by (simp add: build_exec_args_def store_exec_args_eq)

lemma dispatch_nonempty: "dispatch argv = Some (bin_name, argv') \<Longrightarrow> argv' \<noteq> []"
  by (cases argv; cases "tl argv") (auto simp: dispatch_def Let_def split: if_splits)

lemma exec_call_reached:
  assumes "dynexe_dir os = Inr dir"
    and "dispatch argv = Some (bin_name, argv')"
    and "match_linker_name os (shared_lib dir) = Inr (Some linker_name)"
  shows "exec_call os argv =
           Inr (shared_lib dir @ ''/'' @ linker_name,
                map Some ([shared_lib dir @ ''/'' @ linker_name, ''--library-path'', shared_lib dir,
                           shared_bin dir @ ''/'' @ bin_name] @ tl argv') @ [None],
                environ os)"
  using assms dispatch_nonempty [OF assms(2)]
  by (simp add: exec_call_def Let_def join_path_eq build_exec_args_eq)

lemma exec_call_InrD:
  assumes "exec_call os argv = Inr (prog, v, envp)"
  shows "\<exists>dir bin_name argv' linker_name.
           dynexe_dir os = Inr dir \<and> dispatch argv = Some (bin_name, argv') \<and>
           match_linker_name os (shared_lib dir) = Inr (Some linker_name)"
  using assms
  by (auto simp: exec_call_def Let_def split: sum.splits option.splits prod.splits)

lemma strrchr_None: "strrchr s c = None \<longleftrightarrow> c \<notin> set s"
  by (induction s) (auto split: option.splits)

lemma strrchr_append:
  "strrchr (xs @ ys) c =
     (case strrchr ys c of Some i \<Rightarrow> Some (length xs + i) | None \<Rightarrow> strrchr xs c)"
  by (induction xs) (auto split: option.splits)

lemma custom_basename_join:
  "CHR ''/'' \<notin> set name \<Longrightarrow> custom_basename (dir @ ''/'' @ name) = name"
  using strrchr_None [of name "CHR ''/''"]
  by (simp add: custom_basename_def strrchr_append)

lemma custom_basename_plain:
  "CHR ''/'' \<notin> set name \<Longrightarrow> custom_basename name = name"
  using strrchr_None [of name "CHR ''/''"]
  by (simp add: custom_basename_def)

lemma dirname_join:
  assumes "dir \<noteq> []" "last dir \<noteq> CHR ''/''" "name \<noteq> []" "CHR ''/'' \<notin> set name"
  shows "dirname (dir @ ''/'' @ name) = dir"
proof -
  have hd_name: "hd (rev name) \<noteq> CHR ''/''"
    using assms(3,4) by (metis hd_rev last_in_set)
  have hd_dir: "hd (rev dir) \<noteq> CHR ''/''"
    using assms(1,2) by (simp add: hd_rev)
  have 1: "strip_slashes (dir @ ''/'' @ name) = dir @ ''/'' @ name"
    using assms(3) hd_name
    by (cases "rev name") (simp_all add: strip_slashes_def)
  have "dropWhile (\<lambda>c. c \<noteq> CHR ''/'') (rev name @ CHR ''/'' # rev dir) =
          dropWhile (\<lambda>c. c \<noteq> CHR ''/'') (CHR ''/'' # rev dir)"
    by (rule dropWhile_append2) (use assms(4) in auto)
  then have 2: "strip_component (dir @ ''/'' @ name) = dir @ ''/''"
    by (simp add: strip_component_def)
  have 3: "strip_slashes (dir @ ''/'') = dir"
    using assms(1) hd_dir
    by (cases "rev dir") (simp_all add: strip_slashes_def)
  show ?thesis
    unfolding dirname_def Let_def 1 2 3 using assms(1) by simp
qed

lemma regexec_compiled:
  "regcomp linker_pattern = Some regex \<Longrightarrow> regexec regex d_name = accepts_name d_name"
  by (simp add: accepts_name_def)

lemma scan_entries_within:
  assumes "\<forall>d \<in> set entries. length lib + length d + 1 < 1024 \<and> length d < 256"
  shows "scan_entries os regex lib entries =
           List.find (\<lambda>d. stat os (lib @ ''/'' @ d) = Some Regular \<and> regexec regex d) entries"
  using assms by (induction entries) (simp_all add: Let_def snprintf_fits)

lemma match_linker_name_opened:
  "opendir os lib = Inr entries \<Longrightarrow>
   match_linker_name os lib =
     Inr (scan_entries os (the (regcomp linker_pattern)) lib entries)"
  by (simp add: match_linker_name_def regcomp_linker_pattern)

lemma deep_dir_length: "length deep_dir = 1013"
  by (simp add: deep_dir_def deep_segment_def)

lemma deep_dir_last: "deep_dir \<noteq> [] \<and> last deep_dir = CHR ''a''"
  by (simp add: deep_dir_def)

lemma deep_dir_basename: "custom_basename deep_dir \<noteq> ''bin''"
proof -
  have "custom_basename deep_dir = replicate 253 CHR ''a''"
    unfolding deep_dir_def by (rule custom_basename_join) simp
  then have "length (custom_basename deep_dir) = 253"
    by simp
  then show ?thesis by auto
qed

lemma deep_probe: "snprintf 1024 (deep_dir @ s) = deep_dir @ take 10 s"
  by (simp add: snprintf_def deep_dir_length)

lemma accepts_examples:
  "accepts_name ''ld-linux-x86-64.so.2''" "\<not> accepts_name ''.''" "\<not> accepts_name ''..''"
  "\<not> accepts_name ''libc.so.6''"
  by code_simp+

lemma deep_os_dir: "dynexe_dir (deep_os f g) = Inr deep_dir"
proof -
  have "dirname (deep_dir @ ''/'' @ ''dynexe'') = deep_dir"
    using deep_dir_last by (intro dirname_join) simp_all
  then show ?thesis
    using deep_dir_basename
    by (simp add: dynexe_dir_def realpath_alloc_def deep_os_def Let_def)
qed

lemma deep_os_scan:
  "match_linker_name (deep_os f g) (deep_dir @ ''/shared/lib'') =
     Inr (if g = Some Regular then Some ''ld-linux-x86-64.so.2'' else None)"
proof -
  have op: "opendir (deep_os f g) (deep_dir @ ''/shared/lib'') = Inr [''.'', ''..'', ''ld-linux-x86-64.so.2'']"
    by (simp add: deep_os_def)
  have st: "stat (deep_os f g) (deep_dir @ ''/shared/li'') = g"
    by (simp add: deep_os_def)
  show ?thesis
    unfolding match_linker_name_opened [OF op]
    using accepts_examples
    by (simp add: Let_def deep_probe st regexec_compiled regcomp_linker_pattern snprintf_fits)
qed

lemma dispatch_Some: "argv \<noteq> [] \<Longrightarrow> \<exists>bin_name argv'. dispatch argv = Some (bin_name, argv')"
  by (cases argv) (simp_all add: dispatch_def Let_def)


lemma main_of_exec_call:
  "exec_call os argv = Inr (prog, v, envp) \<Longrightarrow>
   main os argv =
     (case execve os prog v envp of
        None \<Rightarrow> Replaced prog v envp
      | Some err \<Rightarrow>
          Terminated (Exit (''Failed to execute '' @ prog @ '': '' @ err @ ''\<newline>'') EXIT_FAILURE))"
  by (simp add: main_def)

lemma scan_entries_environ:
  "scan_entries (os\<lparr>environ := e\<rparr>) regex lib entries = scan_entries os regex lib entries"
  by (induction entries) (simp_all add: Let_def)

lemma exec_call_environ:
  "exec_call (os\<lparr>environ := e\<rparr>) argv =
     map_sum id (\<lambda>(prog, v, envp). (prog, v, e)) (exec_call os argv)"
proof -
  have r: "realpath_alloc (os\<lparr>environ := e\<rparr>) p = realpath_alloc os p" for p
    by (simp add: realpath_alloc_def)
  have f: "is_file (os\<lparr>environ := e\<rparr>) p = is_file os p" for p
    by (simp add: is_file_def)
  have d: "dynexe_dir (os\<lparr>environ := e\<rparr>) = dynexe_dir os"
    by (simp add: dynexe_dir_def r f Let_def split: sum.splits)
  have m: "match_linker_name (os\<lparr>environ := e\<rparr>) lib = match_linker_name os lib" for lib
    by (simp add: match_linker_name_def scan_entries_environ split: option.splits sum.splits)
  show ?thesis
    by (simp add: exec_call_def d m Let_def split: sum.splits option.splits prod.splits)
qed

lemma dynexe_dir_parent_is_directory:
  assumes "realpath os ''/proc/self/exe'' = Inr exe"
    and "stat os (snprintf 512 (dirname exe @ ''/../'')) = Some Directory"
  shows "dynexe_dir os = Inr (dirname exe)"
  using assms by (simp add: dynexe_dir_def realpath_alloc_def is_file_def Let_def)

lemma match_linker_name_first:
  assumes "opendir os lib = Inr entries"
    and "\<forall>d \<in> set entries. length lib + length d + 1 < 1024 \<and> length d < 256"
  shows "match_linker_name os lib =
           Inr (List.find (\<lambda>d. stat os (lib @ ''/'' @ d) = Some Regular \<and> accepts_name d) entries)"
  using assms
  by (simp add: match_linker_name_opened scan_entries_within regexec_compiled regcomp_linker_pattern)

lemma no_linker_exits:
  assumes "dynexe_dir os = Inr dir"
    and "opendir os (shared_lib dir) = Inr entries"
    and "\<forall>d \<in> set entries. length (shared_lib dir) + length d + 1 < 1024 \<and> length d < 256"
    and "\<forall>d \<in> set entries. \<not> (stat os (shared_lib dir @ ''/'' @ d) = Some Regular \<and> accepts_name d)"
    and "argv \<noteq> []"
  shows "main os argv =
           Terminated (Exit (''No valid linker found in '' @ shared_lib dir @ ''\<newline>'') EXIT_FAILURE)"
proof -
  have "List.find (\<lambda>d. stat os (shared_lib dir @ ''/'' @ d) = Some Regular \<and> accepts_name d) entries = None"
    using assms(4) by (simp add: find_None_iff)
  then have "match_linker_name os (shared_lib dir) = Inr None"
    using match_linker_name_first [OF assms(2,3)] by simp
  moreover obtain b a where "dispatch argv = Some (b, a)"
    using dispatch_Some [OF assms(5)] by blast
  ultimately show ?thesis
    using assms(1) by (simp add: main_def exec_call_def Let_def)
qed

lemma scenario_dir: "dynexe_dir scenario_os = Inr ''/opt/app''"
  by code_simp

lemma scenario_linker:
  "match_linker_name scenario_os ''/opt/app/shared/lib'' = Inr (Some ''ld-linux-x86-64.so.2'')"
  by code_simp


lemma basename_mytool: "custom_basename ''/usr/local/bin/mytool'' = ''mytool'' \<and> ''mytool'' \<noteq> DYNEXE_NAME"
  by code_simp

lemma scenario_call:
  "exec_call scenario_os [''dynexe'', ''mytool'', ''--flag'', ''val''] =
     Inr (''/opt/app/shared/lib/ld-linux-x86-64.so.2'',
          [Some ''/opt/app/shared/lib/ld-linux-x86-64.so.2'', Some ''--library-path'',
           Some ''/opt/app/shared/lib'', Some ''/opt/app/shared/bin/mytool'',
           Some ''--flag'', Some ''val'', None],
          [''PATH=/usr/bin'', ''HOME=/root''])"
  by code_simp

lemma basename_tool_call: "dispatch [''dynexe'', ''tool''] = Some (''tool'', [''tool''])"
  by code_simp

lemma deep_os_fields:
  "opendir (deep_os f g) (deep_dir @ ''/shared/lib'') = Inr [''.'', ''..'', ''ld-linux-x86-64.so.2'']"
  "stat (deep_os f g) (deep_dir @ ''/shared/lib/ld-linux-x86-64.so.2'') = f"
  "stat (deep_os f g) (deep_dir @ ''/shared/li'') = g"
  "stat (deep_os f g) (deep_dir @ ''/shared/lib/.'') = Some Directory"
  "stat (deep_os f g) (deep_dir @ ''/shared/lib/..'') = Some Directory"
  "execve (deep_os None g) prog v envp = Some ENOENT"
  "environ (deep_os f g) = []"
  by (simp_all add: deep_os_def)

section \<open>The claims\<close>

text \<open>
  C1. When the launcher's directory is named \<open>bin\<close> and its parent is a directory, the
  claim has the parent's canonical path as install root. The program tests the parent
  with \<open>is_file\<close>, which a directory fails, and keeps the \<open>bin\<close> directory: here the
  launcher is \<open>/opt/app/bin/dynexe\<close>.
\<close>

theorem bin_parent_not_taken:
  "custom_basename (dirname ''/opt/app/bin/dynexe'') = ''bin'' \<and>
   stat bin_layout_os ''/opt/app/bin/../'' = Some Directory \<and>
   realpath bin_layout_os ''/opt/app/bin/../'' = Inr ''/opt/app'' \<and>
   dynexe_dir bin_layout_os = Inr ''/opt/app/bin''"
  by code_simp

text \<open>
  C2. The name test accepts a name exactly when it is \<open>ld-\<close>, any characters, \<open>-\<close>, any
  characters, \<open>.so.\<close>, any characters; each run may be empty and may contain \<open>.\<close> and
  \<open>/\<close>.
\<close>

theorem accepts_name_iff:
  "accepts_name d_name \<longleftrightarrow>
     (\<exists>a b c. d_name = ''ld-'' @ a @ ''-'' @ b @ ''.so.'' @ c)"
proof
  assume "accepts_name d_name"
  then show "\<exists>a b c. d_name = ''ld-'' @ a @ ''-'' @ b @ ''.so.'' @ c"
    by (auto simp: accepts_name_def regcomp_linker_pattern regexec_def match_here_once match_here_star)
next
  assume "\<exists>a b c. d_name = ''ld-'' @ a @ ''-'' @ b @ ''.so.'' @ c"
  then obtain a b c where d: "d_name = ''ld-'' @ a @ ''-'' @ b @ ''.so.'' @ c" by blast
  have 1: "match_here [Star AnyChar] c"
    by (simp add: match_here_star) (metis append_Nil)
  have 2: "match_here (Star AnyChar # map (\<lambda>d. Once (Lit d)) ''.so.'' @ [Star AnyChar]) (b @ ''.so.'' @ c)"
    unfolding match_here_star [of _ _ "b @ ''.so.'' @ c"] match_here_lits using 1 by auto
  have 3: "match_here (Star AnyChar # Once (Lit CHR ''-'') # Star AnyChar #
                       map (\<lambda>d. Once (Lit d)) ''.so.'' @ [Star AnyChar])
             (a @ ''-'' @ b @ ''.so.'' @ c)"
    unfolding match_here_star [of _ _ "a @ ''-'' @ b @ ''.so.'' @ c"]
    using 2 by (auto simp: match_here_once)
  show "accepts_name d_name"
    using 3 by (simp add: d accepts_name_def regcomp_linker_pattern regexec_def)
qed

text \<open>
  The claim as worded fails: a token with a dot in it and empty tokens are accepted.
\<close>

theorem name_test_counterexample:
  "accepts_name ''ld-a.b-c.so.1'' \<and> \<not> spec_name_test ''ld-a.b-c.so.1'' \<and>
   accepts_name ''ld--.so.1'' \<and> \<not> spec_name_test ''ld--.so.1''"
  by code_simp



text \<open>
  C4. Called under another name \<open>Y\<close>, the binary name is \<open>Y\<close>, the target is the binary
  directory, a slash and \<open>Y\<close>, and every argument after the program name is forwarded,
  in order.
\<close>

theorem dispatch_by_rename:
  assumes "custom_basename a0 = Y" and "Y \<noteq> DYNEXE_NAME"
  shows "dispatch (a0 # args) = Some (Y, a0 # args) \<and>
         join_path sbin Y = sbin @ ''/'' @ Y \<and>
         build_exec_args linker slib (join_path sbin Y) (a0 # args) =
           map Some ([linker, ''--library-path'', slib, sbin @ ''/'' @ Y] @ args) @ [None] \<and>
         (dynexe_dir os = Inr dir \<and>
          match_linker_name os (shared_lib dir) = Inr (Some linker_name) \<longrightarrow>
          exec_call os (a0 # args) =
            Inr (shared_lib dir @ ''/'' @ linker_name,
                 map Some ([shared_lib dir @ ''/'' @ linker_name, ''--library-path'', shared_lib dir,
                            shared_bin dir @ ''/'' @ Y] @ args) @ [None],
                 environ os))"
proof -
  have d: "dispatch (a0 # args) = Some (Y, a0 # args)"
    using assms by (simp add: dispatch_def Let_def)
  have e: "exec_call os (a0 # args) =
            Inr (shared_lib dir @ ''/'' @ linker_name,
                 map Some ([shared_lib dir @ ''/'' @ linker_name, ''--library-path'', shared_lib dir,
                            shared_bin dir @ ''/'' @ Y] @ args) @ [None],
                 environ os)"
    if "dynexe_dir os = Inr dir" "match_linker_name os (shared_lib dir) = Inr (Some linker_name)"
    using exec_call_reached [OF that(1) d that(2)] by simp
  show ?thesis
    using d e by (simp add: join_path_eq build_exec_args_eq)
qed

theorem dispatch_by_rename_witness:
  "custom_basename ''/usr/local/bin/mytool'' = ''mytool'' \<and> ''mytool'' \<noteq> DYNEXE_NAME \<and>
   dynexe_dir scenario_os = Inr ''/opt/app'' \<and>
   match_linker_name scenario_os (shared_lib ''/opt/app'') = Inr (Some ''ld-linux-x86-64.so.2'') \<and>
   dispatch [''/usr/local/bin/mytool'', ''--flag'', ''val''] =
     Some (''mytool'', [''/usr/local/bin/mytool'', ''--flag'', ''val'']) \<and>
   exec_call scenario_os [''/usr/local/bin/mytool'', ''--flag'', ''val''] =
     Inr (''/opt/app/shared/lib/ld-linux-x86-64.so.2'',
          [Some ''/opt/app/shared/lib/ld-linux-x86-64.so.2'', Some ''--library-path'',
           Some ''/opt/app/shared/lib'', Some ''/opt/app/shared/bin/mytool'',
           Some ''--flag'', Some ''val'', None],
          environ scenario_os)"
proof -
  have h1: "custom_basename ''/usr/local/bin/mytool'' = ''mytool''"
    and h2: "''mytool'' \<noteq> DYNEXE_NAME"
    using basename_mytool by simp_all
  show ?thesis
    using dispatch_by_rename [OF h1 h2, of "[''--flag'', ''val'']" "''''" "''''" "''''"
            scenario_os "''/opt/app''" "''ld-linux-x86-64.so.2''"]
          h1 h2 scenario_dir scenario_linker
    by (simp add: shared_lib_eq shared_bin_eq)
qed

text \<open>
  C5. Whenever \<open>execve\<close> is called, its argument vector is the interpreter path,
  \<open>--library-path\<close>, the library directory, the target path and the forwarded arguments in
  their order, followed by the null pointer; without the null pointer it has \<open>argc + 3\<close>
  entries, \<open>argc\<close> being the count after dispatch, and no entry before the last is null.
\<close>

theorem exec_args_shape:
  assumes "exec_call os argv = Inr (prog, v, envp)"
  shows "\<exists>dir bin_name argv' linker_name.
           dynexe_dir os = Inr dir \<and>
           dispatch argv = Some (bin_name, argv') \<and>
           match_linker_name os (shared_lib dir) = Inr (Some linker_name) \<and>
           prog = shared_lib dir @ ''/'' @ linker_name \<and>
           v = map Some ([prog, ''--library-path'', shared_lib dir,
                          shared_bin dir @ ''/'' @ bin_name] @ tl argv') @ [None] \<and>
           length (butlast v) = length argv' + 3 \<and>
           length v = length argv' + 4 \<and>
           last v = None \<and>
           None \<notin> set (butlast v)"
proof -
  obtain dir bin_name argv' linker_name where
    h: "dynexe_dir os = Inr dir" "dispatch argv = Some (bin_name, argv')"
       "match_linker_name os (shared_lib dir) = Inr (Some linker_name)"
    using exec_call_InrD [OF assms] by blast
  have ne: "argv' \<noteq> []"
    using dispatch_nonempty [OF h(2)] .
  have "prog = shared_lib dir @ ''/'' @ linker_name"
    and v: "v = map Some ([prog, ''--library-path'', shared_lib dir,
                       shared_bin dir @ ''/'' @ bin_name] @ tl argv') @ [None]"
    using exec_call_reached [OF h] assms by simp_all
  moreover have "length (butlast v) = length argv' + 3" "length v = length argv' + 4" "last v = None"
      "None \<notin> set (butlast v)"
    using ne by (auto simp: v)
  ultimately show ?thesis
    using h by blast
qed

theorem exec_args_shape_witness:
  "exec_call scenario_os [''dynexe'', ''mytool'', ''--flag'', ''val''] =
     Inr (''/opt/app/shared/lib/ld-linux-x86-64.so.2'',
          [Some ''/opt/app/shared/lib/ld-linux-x86-64.so.2'', Some ''--library-path'',
           Some ''/opt/app/shared/lib'', Some ''/opt/app/shared/bin/mytool'',
           Some ''--flag'', Some ''val'', None],
          [''PATH=/usr/bin'', ''HOME=/root'']) \<and>
   (\<exists>dir bin_name argv' linker_name.
      dynexe_dir scenario_os = Inr dir \<and>
      dispatch [''dynexe'', ''mytool'', ''--flag'', ''val''] = Some (bin_name, argv') \<and>
      match_linker_name scenario_os (shared_lib dir) = Inr (Some linker_name) \<and>
      length (butlast [Some ''/opt/app/shared/lib/ld-linux-x86-64.so.2'', Some ''--library-path'',
           Some ''/opt/app/shared/lib'', Some ''/opt/app/shared/bin/mytool'',
           Some ''--flag'', Some ''val'', None]) = length argv' + 3)"
  using scenario_call exec_args_shape [OF scenario_call]
  by blast

text \<open>
  C6. The claim has the locator return the first entry that is a regular file and
  passes the name test. The file is looked up under the path written into a 1024-byte
  buffer, which is cut after 1023 bytes. With a library directory whose path is 1024 bytes
  long and holds the regular file \<open>ld-linux-x86-64.so.2\<close>, every lookup is of the
  directory's path less its last byte, which does not exist: the locator returns the
  null pointer and the run ends with \<open>No valid linker found\<close>. (Lemma
  \<open>match_linker_name_first\<close> is the claim for paths that fit the buffer.)
\<close>

theorem long_path_hides_linker:
  "length (deep_dir @ ''/shared/lib'') = 1024 \<and>
   opendir (deep_os (Some Regular) None) (deep_dir @ ''/shared/lib'') =
     Inr [''.'', ''..'', ''ld-linux-x86-64.so.2''] \<and>
   stat (deep_os (Some Regular) None) (deep_dir @ ''/shared/lib/ld-linux-x86-64.so.2'') = Some Regular \<and>
   accepts_name ''ld-linux-x86-64.so.2'' \<and>
   match_linker_name (deep_os (Some Regular) None) (deep_dir @ ''/shared/lib'') = Inr None \<and>
   main (deep_os (Some Regular) None) [''dynexe'', ''tool''] =
     Terminated (Exit (''No valid linker found in '' @ deep_dir @ ''/shared/lib'' @ ''\<newline>'')
                      EXIT_FAILURE)"
  using accepts_examples(1) basename_tool_call
  by (simp add: deep_os_fields deep_os_scan deep_os_dir deep_dir_length main_def exec_call_def
        Let_def shared_lib_eq shared_bin_eq)

text \<open>
  C7. The launcher \<open>/opt/app/dynexe\<close>, the interpreter \<open>ld-linux-x86-64.so.2\<close> in
  \<open>/opt/app/shared/lib\<close> and the call \<open>dynexe mytool --flag val\<close> give the argument vector
  of the claim; the two directories are the install root followed by \<open>/shared/bin\<close> and
  \<open>/shared/lib\<close>.
\<close>

theorem end_to_end_scenario:
  "shared_bin dir = dir @ ''/shared/bin'' \<and>
   shared_lib dir = dir @ ''/shared/lib'' \<and>
   dynexe_dir scenario_os = Inr ''/opt/app'' \<and>
   match_linker_name scenario_os (shared_lib ''/opt/app'') = Inr (Some ''ld-linux-x86-64.so.2'') \<and>
   exec_call scenario_os [''dynexe'', ''mytool'', ''--flag'', ''val''] =
     Inr (''/opt/app/shared/lib/ld-linux-x86-64.so.2'',
          [Some ''/opt/app/shared/lib/ld-linux-x86-64.so.2'', Some ''--library-path'',
           Some ''/opt/app/shared/lib'', Some ''/opt/app/shared/bin/mytool'',
           Some ''--flag'', Some ''val'', None],
          environ scenario_os) \<and>
   main scenario_os [''dynexe'', ''mytool'', ''--flag'', ''val''] =
     Replaced ''/opt/app/shared/lib/ld-linux-x86-64.so.2''
       [Some ''/opt/app/shared/lib/ld-linux-x86-64.so.2'', Some ''--library-path'',
        Some ''/opt/app/shared/lib'', Some ''/opt/app/shared/bin/mytool'',
        Some ''--flag'', Some ''val'', None]
       (environ scenario_os)"
proof -
  have e: "environ scenario_os = [''PATH=/usr/bin'', ''HOME=/root'']"
    and x: "execve scenario_os = (\<lambda>prog argv envp. None)"
    by (simp_all add: scenario_os_def)
  show ?thesis
    using scenario_dir scenario_linker
    by (simp add: shared_bin_eq shared_lib_eq main_def scenario_call e x)
qed

text \<open>
  C8. The claim has the launcher exit with the diagnostic of the locator, and attempt no
  process replacement, whenever no entry of the library directory is a regular file
  that passes the name test. Same 1024-byte path; the entry \<open>ld-linux-x86-64.so.2\<close> is a
  link to nothing, and \<open>shared/li\<close>, which is what the cut path names, is a regular file.
  The locator returns the entry, \<open>execve\<close> is called with it and fails, and the run ends
  with \<open>Failed to execute\<close>, not with \<open>No valid linker found\<close>. (Lemma \<open>no_linker_exits\<close> is
  the claim for paths that fit the buffer.)
\<close>

theorem long_path_finds_linker:
  "opendir (deep_os None (Some Regular)) (deep_dir @ ''/shared/lib'') =
     Inr [''.'', ''..'', ''ld-linux-x86-64.so.2''] \<and>
   stat (deep_os None (Some Regular)) (deep_dir @ ''/shared/lib/.'') = Some Directory \<and>
   stat (deep_os None (Some Regular)) (deep_dir @ ''/shared/lib/..'') = Some Directory \<and>
   stat (deep_os None (Some Regular)) (deep_dir @ ''/shared/lib/ld-linux-x86-64.so.2'') = None \<and>
   dynexe_dir (deep_os None (Some Regular)) = Inr deep_dir \<and>
   match_linker_name (deep_os None (Some Regular)) (shared_lib deep_dir) =
     Inr (Some ''ld-linux-x86-64.so.2'') \<and>
   exec_call (deep_os None (Some Regular)) [''dynexe'', ''tool''] =
     Inr (deep_dir @ ''/shared/lib/ld-linux-x86-64.so.2'',
          [Some (deep_dir @ ''/shared/lib/ld-linux-x86-64.so.2''), Some ''--library-path'',
           Some (deep_dir @ ''/shared/lib''), Some (deep_dir @ ''/shared/bin/tool''), None],
          []) \<and>
   execve (deep_os None (Some Regular)) (deep_dir @ ''/shared/lib/ld-linux-x86-64.so.2'')
     [Some (deep_dir @ ''/shared/lib/ld-linux-x86-64.so.2''), Some ''--library-path'',
      Some (deep_dir @ ''/shared/lib''), Some (deep_dir @ ''/shared/bin/tool''), None]
     [] = Some ENOENT \<and>
   main (deep_os None (Some Regular)) [''dynexe'', ''tool''] =
     Terminated (Exit (''Failed to execute '' @ deep_dir @ ''/shared/lib/ld-linux-x86-64.so.2''
                       @ '': '' @ ENOENT @ ''\<newline>'') EXIT_FAILURE) \<and>
   main (deep_os None (Some Regular)) [''dynexe'', ''tool''] \<noteq>
     Terminated (Exit (''No valid linker found in '' @ deep_dir @ ''/shared/lib'' @ ''\<newline>'')
                      EXIT_FAILURE)"
  using basename_tool_call
  by (simp add: deep_os_fields deep_os_scan deep_os_dir main_def exec_call_def Let_def
        shared_lib_eq shared_bin_eq join_path_eq build_exec_args_eq)

text \<open>
  C9. \<open>execve\<close> is called with the inherited environment as it is, and nothing else the
  program does depends on the environment: with another environment the program and the
  argument vector passed to \<open>execve\<close> are the same.
\<close>

theorem environment_passed_unchanged:
  assumes "exec_call os argv = Inr (prog, v, envp)"
  shows "envp = environ os \<and>
         exec_call (os\<lparr>environ := e\<rparr>) argv = Inr (prog, v, e) \<and>
         main os argv =
           (case execve os prog v (environ os) of
              None \<Rightarrow> Replaced prog v (environ os)
            | Some err \<Rightarrow>
                Terminated (Exit (''Failed to execute '' @ prog @ '': '' @ err @ ''\<newline>'')
                                 EXIT_FAILURE))"
proof -
  have 1: "envp = environ os"
    using assms
    by (auto simp: exec_call_def Let_def split: sum.splits option.splits prod.splits)
  have 2: "exec_call (os\<lparr>environ := e\<rparr>) argv = Inr (prog, v, e)"
    using assms by (simp add: exec_call_environ)
  have 3: "exec_call os argv = Inr (prog, v, environ os)"
    using assms 1 by simp
  show ?thesis
    using 1 2 main_of_exec_call [OF 3] by simp
qed

theorem environment_passed_unchanged_witness:
  "exec_call scenario_os [''dynexe'', ''mytool'', ''--flag'', ''val''] =
     Inr (''/opt/app/shared/lib/ld-linux-x86-64.so.2'',
          [Some ''/opt/app/shared/lib/ld-linux-x86-64.so.2'', Some ''--library-path'',
           Some ''/opt/app/shared/lib'', Some ''/opt/app/shared/bin/mytool'',
           Some ''--flag'', Some ''val'', None],
          [''PATH=/usr/bin'', ''HOME=/root'']) \<and>
   [''PATH=/usr/bin'', ''HOME=/root''] = environ scenario_os \<and>
   exec_call (scenario_os\<lparr>environ := [''LD_PRELOAD=x.so'']\<rparr>) [''dynexe'', ''mytool'', ''--flag'', ''val''] =
     Inr (''/opt/app/shared/lib/ld-linux-x86-64.so.2'',
          [Some ''/opt/app/shared/lib/ld-linux-x86-64.so.2'', Some ''--library-path'',
           Some ''/opt/app/shared/lib'', Some ''/opt/app/shared/bin/mytool'',
           Some ''--flag'', Some ''val'', None],
          [''LD_PRELOAD=x.so''])"
  using scenario_call environment_passed_unchanged [OF scenario_call, of "[''LD_PRELOAD=x.so'']"]
  by simp



end
